theory Spec2Isabelle
  imports Complex_Main
begin

section \<open>JavaScript Number values\<close>

text \<open>
  The engine computes with JavaScript Numbers: IEEE 754 binary64 values.  A finite value is
  carried by the rational it denotes (\<open>Fin 0\<close> is \<open>+0\<close>, the negative zero is a value of its
  own), and every arithmetic operation rounds its exact result to the nearest binary64
  value, ties to even, as ECMAScript prescribes for \<open>+\<close>, \<open>-\<close>, \<open>*\<close> and \<open>/\<close>.
\<close>

datatype jsnum = NaN | PosInf | NegInf | NegZero | Fin rat

fun nlog :: "nat \<Rightarrow> nat \<Rightarrow> nat" where
  "nlog b n = (if b < 2 \<or> n < b then 0 else Suc (nlog b (n div b)))"

declare nlog.simps [simp del]

definition bpow :: "nat \<Rightarrow> int \<Rightarrow> rat" where
  "bpow b e = (if 0 \<le> e then of_nat b ^ nat e else 1 / of_nat b ^ nat (- e))"

text \<open>\<open>ilog b q\<close> is the integer \<open>k\<close> with \<open>b ^ k \<le> q < b ^ (k + 1)\<close>, for \<open>q > 0\<close>.\<close>

definition ilog :: "nat \<Rightarrow> rat \<Rightarrow> int" where
  "ilog b q =
     (if 1 \<le> q then int (nlog b (nat \<lfloor>q\<rfloor>))
      else (let j = int (nlog b (nat \<lfloor>1 / q\<rfloor>))
            in if bpow b (- j) = q then - j else - j - 1))"

definition round_half_even :: "rat \<Rightarrow> int" where
  "round_half_even x =
     (let f = \<lfloor>x\<rfloor>; d = x - of_int f
      in if d < 1 / 2 then f else if 1 / 2 < d then f + 1 else if even f then f else f + 1)"

definition round_half_up :: "rat \<Rightarrow> int" where
  "round_half_up x = \<lfloor>x + 1 / 2\<rfloor>"

text \<open>
  Rounding of a positive rational to binary64: 53 significant bits, the exponent of the
  last place no smaller than \<open>-1074\<close> (subnormal numbers), overflow from \<open>2 ^ 1024\<close> on.
\<close>

definition fl_pos :: "rat \<Rightarrow> rat option" where
  "fl_pos q =
     (let e = max (ilog 2 q - 52) (- 1074);
          v = of_int (round_half_even (q / bpow 2 e)) * bpow 2 e
      in if 2 ^ 1024 \<le> v then None else Some v)"

definition fl :: "rat \<Rightarrow> jsnum" where
  "fl q =
     (if q = 0 then Fin 0
      else if 0 < q then (case fl_pos q of None \<Rightarrow> PosInf | Some v \<Rightarrow> Fin v)
      else (case fl_pos (- q) of
              None \<Rightarrow> NegInf
            | Some v \<Rightarrow> if v = 0 then NegZero else Fin (- v)))"

fun isFinite :: "jsnum \<Rightarrow> bool" where
  "isFinite (Fin _) = True"
| "isFinite NegZero = True"
| "isFinite _ = False"

fun isInf :: "jsnum \<Rightarrow> bool" where
  "isInf PosInf = True"
| "isInf NegInf = True"
| "isInf _ = False"

fun is_neg :: "jsnum \<Rightarrow> bool" where
  "is_neg NegInf = True"
| "is_neg NegZero = True"
| "is_neg (Fin x) = (x < 0)"
| "is_neg _ = False"

text \<open>The magnitude of a finite value.\<close>

fun mag :: "jsnum \<Rightarrow> rat" where
  "mag (Fin x) = \<bar>x\<bar>"
| "mag _ = 0"

text \<open>\<open>x === 0\<close>: both zeros are equal to \<open>0\<close>.\<close>

fun is_zero :: "jsnum \<Rightarrow> bool" where
  "is_zero NegZero = True"
| "is_zero (Fin x) = (x = 0)"
| "is_zero _ = False"

fun js_neg :: "jsnum \<Rightarrow> jsnum" where
  "js_neg NaN = NaN"
| "js_neg PosInf = NegInf"
| "js_neg NegInf = PosInf"
| "js_neg NegZero = Fin 0"
| "js_neg (Fin x) = (if x = 0 then NegZero else Fin (- x))"

definition with_sign :: "bool \<Rightarrow> jsnum \<Rightarrow> jsnum" where
  "with_sign neg x = (if neg then js_neg x else x)"

fun js_add :: "jsnum \<Rightarrow> jsnum \<Rightarrow> jsnum" where
  "js_add NaN _ = NaN"
| "js_add _ NaN = NaN"
| "js_add PosInf NegInf = NaN"
| "js_add NegInf PosInf = NaN"
| "js_add PosInf _ = PosInf"
| "js_add _ PosInf = PosInf"
| "js_add NegInf _ = NegInf"
| "js_add _ NegInf = NegInf"
| "js_add NegZero NegZero = NegZero"
| "js_add NegZero (Fin y) = fl y"
| "js_add (Fin x) NegZero = fl x"
| "js_add (Fin x) (Fin y) = fl (x + y)"

definition js_sub :: "jsnum \<Rightarrow> jsnum \<Rightarrow> jsnum" where
  "js_sub x y = js_add x (js_neg y)"

definition js_mul :: "jsnum \<Rightarrow> jsnum \<Rightarrow> jsnum" where
  "js_mul x y =
     (if x = NaN \<or> y = NaN then NaN
      else if isInf x \<or> isInf y then
        (if is_zero x \<or> is_zero y then NaN else with_sign (is_neg x \<noteq> is_neg y) PosInf)
      else with_sign (is_neg x \<noteq> is_neg y) (fl (mag x * mag y)))"

definition js_div :: "jsnum \<Rightarrow> jsnum \<Rightarrow> jsnum" where
  "js_div x y =
     (if x = NaN \<or> y = NaN then NaN
      else if isInf x then (if isInf y then NaN else with_sign (is_neg x \<noteq> is_neg y) PosInf)
      else if isInf y then with_sign (is_neg x \<noteq> is_neg y) (Fin 0)
      else if is_zero y then
        (if is_zero x then NaN else with_sign (is_neg x \<noteq> is_neg y) PosInf)
      else with_sign (is_neg x \<noteq> is_neg y) (fl (mag x / mag y)))"

text \<open>\<open>Math.round\<close>: the nearest integer, a tie going towards \<open>+\<infinity>\<close>; a result of zero
  keeps the sign of the argument.\<close>

fun js_round :: "jsnum \<Rightarrow> jsnum" where
  "js_round (Fin x) = (let n = \<lfloor>x + 1 / 2\<rfloor> in if n = 0 \<and> x < 0 then NegZero else Fin (of_int n))"
| "js_round x = x"


text \<open>The rational a finite value denotes; both zeros denote \<open>0\<close>.\<close>

fun num_val :: "jsnum \<Rightarrow> rat" where
  "num_val (Fin x) = x"
| "num_val _ = 0"

text \<open>\<open>x === y\<close> on Numbers: \<open>NaN\<close> equals nothing, the two zeros are equal.\<close>

definition strict_eq :: "jsnum \<Rightarrow> jsnum \<Rightarrow> bool" where
  "strict_eq x y = (x \<noteq> NaN \<and> y \<noteq> NaN \<and> (x = y \<or> (is_zero x \<and> is_zero y)))"


section \<open>Strings and the conversions between strings and Numbers\<close>

text \<open>
  A JavaScript string is modelled by the list of its characters, each a code unit below
  256; all text the engine produces is ASCII.
\<close>

definition is_digit :: "char \<Rightarrow> bool" where
  "is_digit c = ((48::nat) \<le> of_char c \<and> of_char c \<le> (57::nat))"

definition digit_val :: "char \<Rightarrow> nat" where
  "digit_val c = of_char c - 48"

definition digit_char :: "nat \<Rightarrow> char" where
  "digit_char d = ''0123456789'' ! (d mod 10)"

text \<open>The decimal numeral of a natural number, as \<open>String(d)\<close> writes an integer.\<close>

fun nat_digits :: "nat \<Rightarrow> string" where
  "nat_digits n = (if n < 10 then [digit_char n] else nat_digits (n div 10) @ [digit_char (n mod 10)])"

declare nat_digits.simps [simp del]

definition radix_val :: "nat \<Rightarrow> (char \<Rightarrow> nat) \<Rightarrow> string \<Rightarrow> nat" where
  "radix_val b dv s = foldl (\<lambda>n c. b * n + dv c) 0 s"

definition dec_val :: "string \<Rightarrow> nat" where
  "dec_val s = radix_val 10 digit_val s"

subsection \<open>\<open>Number(s)\<close>\<close>

text \<open>
  The conversion of a string to a Number follows the grammar of ECMAScript's
  \<open>StringNumericLiteral\<close>: optional white space around an optional literal, which is a
  signed decimal literal (digits with an optional point and exponent, or \<open>Infinity\<close>) or
  an unsigned hexadecimal, octal or binary integer.  White space alone denotes \<open>+0\<close>,
  any other text is \<open>NaN\<close>.
\<close>

definition is_ws :: "char \<Rightarrow> bool" where
  "is_ws c = (of_char c \<in> {9, 10, 11, 12, 13, 32, 160 :: nat})"

definition trim :: "string \<Rightarrow> string" where
  "trim s = rev (dropWhile is_ws (rev (dropWhile is_ws s)))"

definition is_exp_mark :: "char \<Rightarrow> bool" where
  "is_exp_mark c = (c = CHR ''e'' \<or> c = CHR ''E'')"

text \<open>A signed integer of an exponent part.\<close>

definition parse_exponent :: "string \<Rightarrow> int option" where
  "parse_exponent s =
     (let neg = (s \<noteq> [] \<and> hd s = CHR ''-'');
          ds = (if s \<noteq> [] \<and> (hd s = CHR ''-'' \<or> hd s = CHR ''+'') then tl s else s)
      in if ds \<noteq> [] \<and> list_all is_digit ds
         then Some (if neg then - int (dec_val ds) else int (dec_val ds))
         else None)"

text \<open>The mathematical value of an unsigned decimal literal other than \<open>Infinity\<close>.\<close>

definition parse_decimal :: "string \<Rightarrow> rat option" where
  "parse_decimal s =
     (let m = takeWhile (\<lambda>c. \<not> is_exp_mark c) s;
          r = dropWhile (\<lambda>c. \<not> is_exp_mark c) s;
          ex = (if r = [] then Some 0 else parse_exponent (tl r));
          ip = takeWhile is_digit m;
          r2 = dropWhile is_digit m;
          fp = (if r2 = [] then [] else tl r2)
      in if (r2 = [] \<or> hd r2 = CHR ''.'') \<and> list_all is_digit fp \<and> ip @ fp \<noteq> []
         then (case ex of
                 None \<Rightarrow> None
               | Some e \<Rightarrow> Some (of_nat (dec_val (ip @ fp)) * bpow 10 (e - int (length fp))))
         else None)"

definition is_hex_digit :: "char \<Rightarrow> bool" where
  "is_hex_digit c =
     (is_digit c \<or> ((97::nat) \<le> of_char c \<and> of_char c \<le> (102::nat))
      \<or> ((65::nat) \<le> of_char c \<and> of_char c \<le> (70::nat)))"

definition hex_val :: "char \<Rightarrow> nat" where
  "hex_val c =
     (if is_digit c then digit_val c
      else if (97::nat) \<le> of_char c then of_char c - 87 else of_char c - 55)"

definition is_oct_digit :: "char \<Rightarrow> bool" where
  "is_oct_digit c = ((48::nat) \<le> of_char c \<and> of_char c \<le> (55::nat))"

definition is_bin_digit :: "char \<Rightarrow> bool" where
  "is_bin_digit c = (c = CHR ''0'' \<or> c = CHR ''1'')"

text \<open>The value of a hexadecimal, octal or binary integer literal.\<close>

definition parse_non_decimal :: "string \<Rightarrow> nat option" where
  "parse_non_decimal s =
     (let p = take 2 s; ds = drop 2 s
      in if ds = [] then None
         else if (p = ''0x'' \<or> p = ''0X'') \<and> list_all is_hex_digit ds then Some (radix_val 16 hex_val ds)
         else if (p = ''0o'' \<or> p = ''0O'') \<and> list_all is_oct_digit ds then Some (radix_val 8 digit_val ds)
         else if (p = ''0b'' \<or> p = ''0B'') \<and> list_all is_bin_digit ds then Some (radix_val 2 digit_val ds)
         else None)"

definition Number :: "string \<Rightarrow> jsnum" where
  "Number s =
     (let t = trim s
      in if t = [] then Fin 0
         else (case parse_non_decimal t of
                 Some n \<Rightarrow> fl (of_nat n)
               | None \<Rightarrow>
                   (let neg = (hd t = CHR ''-'');
                        u = (if hd t = CHR ''-'' \<or> hd t = CHR ''+'' then tl t else t)
                    in if u = ''Infinity'' then with_sign neg PosInf
                       else (case parse_decimal u of
                               None \<Rightarrow> NaN
                             | Some v \<Rightarrow> with_sign neg (fl v)))))"

subsection \<open>\<open>Number.prototype.toString\<close>\<close>

text \<open>
  The decimal text of a finite positive value \<open>x\<close> uses the fewest digits \<open>s\<close> (with a decimal
  exponent) that still round to \<open>x\<close>; among several candidates of that length the closest
  to \<open>x\<close>, the even one on a tie.  \<open>shortest x n k fuel\<close> tries \<open>k\<close>, \<open>k + 1\<close>, ... digits
  for a value with \<open>10 ^ (n - 1) \<le> x < 10 ^ n\<close> and returns the digits as an integer
  together with the decimal exponent of its last digit.  Seventeen digits identify every
  binary64 value.
\<close>

fun shortest :: "rat \<Rightarrow> int \<Rightarrow> nat \<Rightarrow> nat \<Rightarrow> int \<times> int" where
  "shortest x n k fuel =
     (let sc = bpow 10 (n - int k);
          lo = \<lfloor>x / sc\<rfloor>;
          hi = lo + 1;
          oklo = (10 ^ (k - 1) \<le> lo \<and> fl (of_int lo * sc) = Fin x);
          okhi = (fl (of_int hi * sc) = Fin x);
          dlo = x - of_int lo * sc;
          dhi = of_int hi * sc - x
      in if oklo \<and> okhi then
           (if dlo < dhi then (lo, n - int k)
            else if dhi < dlo then (hi, n - int k)
            else if even lo then (lo, n - int k) else (hi, n - int k))
         else if oklo then (lo, n - int k)
         else if okhi then (hi, n - int k)
         else (case fuel of 0 \<Rightarrow> (lo, n - int k) | Suc f \<Rightarrow> shortest x n (Suc k) f))"

declare shortest.simps [simp del]

definition strip_zeros :: "string \<Rightarrow> string" where
  "strip_zeros s = rev (dropWhile (\<lambda>c. c = CHR ''0'') (rev s))"

text \<open>The digits of the text and the position \<open>n\<close> of the decimal point after the first
  digit group: the value is \<open>0.d\<^sub>1d\<^sub>2\<dots>d\<^sub>k \<times> 10\<^sup>n\<close>.\<close>

definition shortest_digits :: "rat \<Rightarrow> string \<times> int" where
  "shortest_digits x =
     (let (s, e) = shortest x (ilog 10 x + 1) 1 16;
          ds = nat_digits (nat s)
      in (strip_zeros ds, e + int (length ds)))"

definition pos_toString :: "rat \<Rightarrow> string" where
  "pos_toString x =
     (let (ds, n) = shortest_digits x; k = int (length ds)
      in if k \<le> n \<and> n \<le> 21 then ds @ replicate (nat (n - k)) (CHR ''0'')
         else if 0 < n \<and> n \<le> 21 then take (nat n) ds @ ''.'' @ drop (nat n) ds
         else if - 6 < n \<and> n \<le> 0 then ''0.'' @ replicate (nat (- n)) (CHR ''0'') @ ds
         else (let e = n - 1;
                   es = (if e < 0 then ''-'' else ''+'') @ nat_digits (nat \<bar>e\<bar>)
               in if k = 1 then ds @ ''e'' @ es
                  else take 1 ds @ ''.'' @ drop 1 ds @ ''e'' @ es))"

fun toString :: "jsnum \<Rightarrow> string" where
  "toString NaN = ''NaN''"
| "toString PosInf = ''Infinity''"
| "toString NegInf = ''-Infinity''"
| "toString NegZero = ''0''"
| "toString (Fin x) =
     (if x = 0 then ''0'' else if x < 0 then ''-'' @ pos_toString (- x) else pos_toString x)"


subsection \<open>\<open>toLocaleString('en-US', { maximumSignificantDigits: 12 })\<close>\<close>

text \<open>
  The \<open>en-US\<close> number format: the value rounded to at most twelve significant digits
  (a tie away from zero), the digits of the integer part in groups of three separated by
  commas, the fraction without trailing zeros.
\<close>

fun group3 :: "string \<Rightarrow> string" where
  "group3 s = (if length s \<le> 3 then s else group3 (take (length s - 3) s) @ '','' @ drop (length s - 3) s)"

declare group3.simps [simp del]

definition pos_toLocaleString :: "rat \<Rightarrow> string" where
  "pos_toLocaleString x =
     (let e = ilog 10 x + 1 - 12;
          v = of_int (round_half_up (x / bpow 10 e)) * bpow 10 e;
          ip = nat \<lfloor>v\<rfloor>;
          fr = nat \<lfloor>(v - of_nat ip) * bpow 10 (- e)\<rfloor>;
          fd = (if 0 \<le> e then []
                else strip_zeros (replicate (nat (- e) - length (nat_digits fr)) (CHR ''0'') @ nat_digits fr))
      in group3 (nat_digits ip) @ (if fd = [] then [] else ''.'' @ fd))"

text \<open>The infinity sign is written as its three UTF-8 bytes.\<close>

definition infinity_sign :: string where
  "infinity_sign = [CHR 0xE2, CHR 0x88, CHR 0x9E]"

fun toLocaleString :: "jsnum \<Rightarrow> string" where
  "toLocaleString NaN = ''NaN''"
| "toLocaleString PosInf = infinity_sign"
| "toLocaleString NegInf = ''-'' @ infinity_sign"
| "toLocaleString NegZero = ''-0''"
| "toLocaleString (Fin x) =
     (if x = 0 then ''0''
      else if x < 0 then ''-'' @ pos_toLocaleString (- x) else pos_toLocaleString x)"

subsection \<open>The two regular-expression replacements of \<open>formatNumber\<close>\<close>

text \<open>
  \<open>str.replace(/\.0+$/, '')\<close> removes a point followed by zeros only, up to the end of the
  string: the match starts at the first point after which everything is \<open>0\<close>.
\<close>

fun replace_point_zeros :: "string \<Rightarrow> string" where
  "replace_point_zeros [] = []"
| "replace_point_zeros (c # cs) =
     (if c = CHR ''.'' \<and> cs \<noteq> [] \<and> list_all (\<lambda>d. d = CHR ''0'') cs then []
      else c # replace_point_zeros cs)"

text \<open>
  \<open>str.replace(/(\.\d*?)0+$/, '$1')\<close> matches at the first point that is followed by digits
  only, the last of them \<open>0\<close>; the lazy group keeps the digits up to the last one that is
  not \<open>0\<close>, and the zeros behind it are dropped.
\<close>

fun replace_trailing_zeros :: "string \<Rightarrow> string" where
  "replace_trailing_zeros [] = []"
| "replace_trailing_zeros (c # cs) =
     (if c = CHR ''.'' \<and> cs \<noteq> [] \<and> list_all is_digit cs \<and> last cs = CHR ''0''
      then c # strip_zeros cs
      else c # replace_trailing_zeros cs)"


section \<open>The calculator engine\<close>

record state =
  display :: string
  prev :: "jsnum option"
  op :: "string option"
  overwrite :: bool
  lastOp :: "string option"
  lastOperand :: "jsnum option"
  error :: bool
  rightLabel :: "string option"
  rightValue :: "jsnum option"

definition createInitialState :: state where
  "createInitialState =
     \<lparr> display = ''0'', prev = None, op = None, overwrite = False, lastOp = None,
       lastOperand = None, error = False, rightLabel = None, rightValue = None \<rparr>"

text \<open>A string or \<open>null\<close> used as a condition: \<open>null\<close> and the empty string are false.\<close>

fun truthy :: "string option \<Rightarrow> bool" where
  "truthy None = False"
| "truthy (Some s) = (s \<noteq> [])"

definition toNumber :: "string \<Rightarrow> jsnum" where
  "toNumber s = (let n = Number s in if isFinite n then n else Fin 0)"

definition formatNumber :: "jsnum \<Rightarrow> string" where
  "formatNumber n =
     (if \<not> isFinite n then ''Error''
      else (let s = js_div (js_round (js_mul n (Fin 1000000000000))) (Fin 1000000000000);
                str = toString s
            in if CHR ''e'' \<in> set str then toLocaleString s
               else if CHR ''.'' \<in> set str then replace_trailing_zeros (replace_point_zeros str)
               else str))"

text \<open>
  \<open>Math.pow\<close> is approximated by the implementation, so \<open>compute\<close> takes it as the
  parameter \<open>pw\<close>.  The operator is the string held in the state, or \<open>null\<close>.
\<close>

definition compute :: "(jsnum \<Rightarrow> jsnum \<Rightarrow> jsnum) \<Rightarrow> jsnum \<Rightarrow> jsnum \<Rightarrow> string option \<Rightarrow> jsnum" where
  "compute pw a b opr =
     (if opr = Some ''+'' then js_add a b
      else if opr = Some ''-'' then js_sub a b
      else if opr = Some ''*'' then js_mul a b
      else if opr = Some ''/'' then (if is_zero b then PosInf else js_div a b)
      else if opr = Some ''^'' then pw a b
      else b)"

text \<open>The digit \<open>d\<close> is a number (a key of the pad) or its text (a key of the keyboard);
  \<open>String(d)\<close> is its decimal numeral.\<close>

definition inputDigit :: "state \<Rightarrow> nat \<Rightarrow> state" where
  "inputDigit s d =
     (if error s then createInitialState
      else if overwrite s \<or> display s = ''0''
        then s\<lparr> display := nat_digits d, overwrite := False, rightLabel := None, rightValue := None \<rparr>
      else if length (display s) \<ge> 16 then s
      else s\<lparr> display := display s @ nat_digits d, rightLabel := None, rightValue := None \<rparr>)"

definition inputDot :: "state \<Rightarrow> state" where
  "inputDot s =
     (if error s then createInitialState
      else if overwrite s
        then s\<lparr> display := ''0.'', overwrite := False, rightLabel := None, rightValue := None \<rparr>
      else if CHR ''.'' \<in> set (display s) then s
      else s\<lparr> display := display s @ ''.'', rightLabel := None, rightValue := None \<rparr>)"

definition setOperator :: "(jsnum \<Rightarrow> jsnum \<Rightarrow> jsnum) \<Rightarrow> state \<Rightarrow> string \<Rightarrow> state" where
  "setOperator pw s new_op =
     (if error s then createInitialState
      else if truthy (op s) \<and> \<not> overwrite s then
        (let a = (case prev s of Some p \<Rightarrow> p | None \<Rightarrow> toNumber (display s));
             b = (if truthy (rightLabel s) \<and> rightValue s \<noteq> None then the (rightValue s)
                  else toNumber (display s));
             res = compute pw a b (op s);
             formatted = formatNumber res;
             err = (formatted = ''Error'')
         in \<lparr> display = formatted,
              prev = (if err then None else Some res),
              op = Some new_op,
              overwrite = True,
              lastOp = (if err then None else op s),
              lastOperand = (if err then None else Some b),
              error = err,
              rightLabel = None,
              rightValue = None \<rparr>)
      else s\<lparr> prev := Some (if truthy (rightLabel s) \<and> rightValue s \<noteq> None then the (rightValue s)
                             else toNumber (display s)),
               op := Some new_op,
               overwrite := True,
               rightLabel := None,
               rightValue := None \<rparr>)"

definition toggle_text :: "string \<Rightarrow> string" where
  "toggle_text t = (if t \<noteq> [] \<and> hd t = CHR ''-'' then drop 1 t else ''-'' @ t)"

definition toggleSign :: "state \<Rightarrow> state" where
  "toggleSign s =
     (if error s then createInitialState
      else if display s = ''0'' then s
      else if overwrite s then s\<lparr> display := toggle_text (display s) \<rparr>
      else s\<lparr> display := toggle_text (display s) \<rparr>)"

definition backspace :: "state \<Rightarrow> state" where
  "backspace s =
     (if error s then createInitialState
      else if overwrite s then s\<lparr> display := ''0'', overwrite := False \<rparr>
      else if length (display s) \<le> 1 \<or> (length (display s) = 2 \<and> hd (display s) = CHR ''-'')
        then s\<lparr> display := ''0'' \<rparr>
      else s\<lparr> display := butlast (display s) \<rparr>)"

definition clearAll :: state where
  "clearAll = createInitialState"


definition evaluate :: "(jsnum \<Rightarrow> jsnum \<Rightarrow> jsnum) \<Rightarrow> state \<Rightarrow> state" where
  "evaluate pw s =
     (if error s then createInitialState
      else if truthy (op s) \<and> truthy (rightLabel s) then
        (let a = (case prev s of Some p \<Rightarrow> p | None \<Rightarrow> toNumber (display s));
             b = (case rightValue s of Some v \<Rightarrow> v | None \<Rightarrow> toNumber (display s));
             res = compute pw a b (op s);
             formatted = formatNumber res;
             err = (formatted = ''Error'')
         in \<lparr> display = formatted,
              prev = (if err then None else Some res),
              op = None,
              overwrite = True,
              lastOp = (if err then None else op s),
              lastOperand = (if err then None else Some b),
              error = err,
              rightLabel = None,
              rightValue = None \<rparr>)
      else if \<not> truthy (op s) \<and> truthy (rightLabel s) then
        (let b = (case rightValue s of Some v \<Rightarrow> v
                  | None \<Rightarrow> js_div (toNumber (display s)) (Fin 100));
             formatted = formatNumber b;
             err = (formatted = ''Error'')
         in \<lparr> display = formatted,
              prev = (if err then None else Some b),
              op = None,
              overwrite = True,
              lastOp = None,
              lastOperand = None,
              error = err,
              rightLabel = None,
              rightValue = None \<rparr>)
      else if truthy (op s) then
        (let a = (case prev s of Some p \<Rightarrow> p | None \<Rightarrow> toNumber (display s));
             b = (if truthy (rightLabel s) \<and> rightValue s \<noteq> None then the (rightValue s)
                  else toNumber (display s));
             res = compute pw a b (op s);
             formatted = formatNumber res;
             err = (formatted = ''Error'')
         in \<lparr> display = formatted,
              prev = (if err then None else Some res),
              op = None,
              overwrite = True,
              lastOp = (if err then None else op s),
              lastOperand = (if err then None else Some b),
              error = err,
              rightLabel = None,
              rightValue = None \<rparr>)
      else if truthy (lastOp s) \<and> lastOperand s \<noteq> None then
        (let a = toNumber (display s);
             res = compute pw a (the (lastOperand s)) (lastOp s);
             formatted = formatNumber res;
             err = (formatted = ''Error'')
         in \<lparr> display = formatted,
              prev = (if err then None else Some res),
              op = None,
              overwrite = True,
              lastOp = (if err then None else lastOp s),
              lastOperand = (if err then None else lastOperand s),
              error = err,
              rightLabel = None,
              rightValue = None \<rparr>)
      else s)"

definition percent :: "state \<Rightarrow> state" where
  "percent s =
     (if error s then createInitialState
      else (let cur = toNumber (display s);
                val = (if truthy (op s) then
                         (if op s = Some ''*'' \<or> op s = Some ''/'' then js_div cur (Fin 100)
                          else (let base = (case prev s of Some p \<Rightarrow> p
                                            | None \<Rightarrow> toNumber (display s))
                                in js_div (js_mul base cur) (Fin 100)))
                       else js_div cur (Fin 100));
                formatted = formatNumber val;
                err = (formatted = ''Error'')
            in s\<lparr> display := display s,
                   overwrite := True,
                   error := err,
                   rightLabel := Some (formatNumber cur @ ''%''),
                   rightValue := Some val \<rparr>))"

text \<open>
  The object \<open>preview\<close> returns.  The field \<open>p_a\<close> is \<open>null\<close> for a percent without
  operator; \<open>p_bLabel\<close> is absent from the object (here \<open>None\<close>) for the kinds
  \<open>binary\<close> and \<open>repeat\<close>.
\<close>

record preview_result =
  p_a :: "jsnum option"
  p_b :: jsnum
  p_bLabel :: "string option"
  p_op :: "string option"
  p_result :: jsnum
  p_resultStr :: string
  p_error :: bool
  p_kind :: string

definition preview :: "(jsnum \<Rightarrow> jsnum \<Rightarrow> jsnum) \<Rightarrow> state \<Rightarrow> preview_result option" where
  "preview pw s =
     (if truthy (op s) then
        (if truthy (rightLabel s) then
           (let a = (case prev s of Some p \<Rightarrow> p | None \<Rightarrow> toNumber (display s));
                b = (case rightValue s of Some v \<Rightarrow> v | None \<Rightarrow> toNumber (display s));
                str = formatNumber b;
                err = (str = ''Error'')
            in Some \<lparr> p_a = Some a, p_b = b, p_bLabel = rightLabel s, p_op = op s, p_result = b,
                      p_resultStr = str, p_error = err, p_kind = ''percent'' \<rparr>)
         else
           (let a = (case prev s of Some p \<Rightarrow> p | None \<Rightarrow> toNumber (display s));
                b = toNumber (display s);
                res = compute pw a b (op s);
                str = formatNumber res;
                err = (str = ''Error'')
            in Some \<lparr> p_a = Some a, p_b = b, p_bLabel = None, p_op = op s, p_result = res,
                      p_resultStr = str, p_error = err, p_kind = ''binary'' \<rparr>))
      else if truthy (rightLabel s) \<and> \<not> truthy (op s) then
        (let b = (case rightValue s of Some v \<Rightarrow> v
                  | None \<Rightarrow> js_div (toNumber (display s)) (Fin 100));
             str = formatNumber b;
             err = (str = ''Error'')
         in Some \<lparr> p_a = None, p_b = b, p_bLabel = rightLabel s, p_op = None, p_result = b,
                   p_resultStr = str, p_error = err, p_kind = ''percentUnary'' \<rparr>)
      else if truthy (lastOp s) \<and> lastOperand s \<noteq> None then
        (let a = toNumber (display s);
             b = the (lastOperand s);
             res = compute pw a b (lastOp s);
             str = formatNumber res;
             err = (str = ''Error'')
         in Some \<lparr> p_a = Some a, p_b = b, p_bLabel = None, p_op = lastOp s, p_result = res,
                   p_resultStr = str, p_error = err, p_kind = ''repeat'' \<rparr>)
      else None)"

subsection \<open>The operands of a pending operation\<close>

text \<open>
  \<open>setOperator\<close> and \<open>evaluate\<close> read the operands of the pending operation in the same
  way: the left one is \<open>prev\<close>, or the display when \<open>prev\<close> is \<open>null\<close>; the right one is the
  staged percent value when a percent label is set, the display otherwise.
\<close>

definition left_operand :: "state \<Rightarrow> jsnum" where
  "left_operand s = (case prev s of Some p \<Rightarrow> p | None \<Rightarrow> toNumber (display s))"

definition right_operand :: "state \<Rightarrow> jsnum" where
  "right_operand s =
     (if truthy (rightLabel s)
      then (case rightValue s of Some v \<Rightarrow> v | None \<Rightarrow> toNumber (display s))
      else toNumber (display s))"

text \<open>How a compute branch files its result \<open>res\<close> in the state \<open>t\<close> it returns.\<close>

definition result_filed :: "jsnum \<Rightarrow> state \<Rightarrow> bool" where
  "result_filed res t =
     (if isFinite res then prev t = Some res \<and> overwrite t
      else error t \<and> prev t = None \<and> lastOp t = None \<and> lastOperand t = None)"

subsection \<open>Key presses and reachable states\<close>

datatype key =
  Digit nat | Dot | Operator string | ToggleSign | Backspace | ClearAll | Equals | Percent

fun press :: "(jsnum \<Rightarrow> jsnum \<Rightarrow> jsnum) \<Rightarrow> state \<Rightarrow> key \<Rightarrow> state" where
  "press pw s (Digit d) = inputDigit s d"
| "press pw s Dot = inputDot s"
| "press pw s (Operator c) = setOperator pw s c"
| "press pw s ToggleSign = toggleSign s"
| "press pw s Backspace = backspace s"
| "press pw s ClearAll = clearAll"
| "press pw s Equals = evaluate pw s"
| "press pw s Percent = percent s"

text \<open>The state after a sequence of key presses, from the initial state.\<close>

definition run :: "(jsnum \<Rightarrow> jsnum \<Rightarrow> jsnum) \<Rightarrow> key list \<Rightarrow> state" where
  "run pw ks = foldl (press pw) createInitialState ks"


section \<open>Properties of the formatting functions\<close>

text \<open>No text that \<open>formatNumber\<close> builds from a finite Number contains a capital \<open>E\<close>, so
  the text \<open>Error\<close> marks exactly the Numbers that are not finite.\<close>

lemma digit_char_not_E: "digit_char d \<noteq> CHR ''E'' \<and> digit_char d \<noteq> CHR '',''"
proof -
  have "d mod 10 < length ''0123456789''" by simp
  then have "''0123456789'' ! (d mod 10) \<in> set ''0123456789''" by (rule nth_mem)
  then show ?thesis unfolding digit_char_def by auto
qed

lemma nat_digits_no_E: "CHR ''E'' \<notin> set (nat_digits n)"
proof (induction n rule: nat_digits.induct)
  case (1 n)
  show ?case
  proof (cases "n < 10")
    case True
    then show ?thesis using digit_char_not_E [of n] by (subst nat_digits.simps) auto
  next
    case False
    with 1 show ?thesis using digit_char_not_E [of "n mod 10"] by (subst nat_digits.simps) auto
  qed
qed

lemma strip_zeros_subset: "set (strip_zeros s) \<subseteq> set s"
  unfolding strip_zeros_def using set_dropWhileD by fastforce

lemma group3_no_E: "CHR ''E'' \<notin> set s \<Longrightarrow> CHR ''E'' \<notin> set (group3 s)"
proof (induction s rule: group3.induct)
  case (1 s)
  show ?case
  proof (cases "length s \<le> 3")
    case True
    with 1 show ?thesis by (subst group3.simps) simp
  next
    case False
    have "CHR ''E'' \<notin> set (take (length s - 3) s)" using 1(2) by (auto dest: in_set_takeD)
    with 1(1) False have "CHR ''E'' \<notin> set (group3 (take (length s - 3) s))" by simp
    moreover have "CHR ''E'' \<notin> set (drop (length s - 3) s)" using 1(2) by (auto dest: in_set_dropD)
    ultimately show ?thesis using False by (subst group3.simps) simp
  qed
qed

lemma replace_point_zeros_subset: "set (replace_point_zeros s) \<subseteq> set s"
  by (induction s) auto

lemma replace_trailing_zeros_subset: "set (replace_trailing_zeros s) \<subseteq> set s"
proof (induction s)
  case Nil
  then show ?case by simp
next
  case (Cons c cs)
  then show ?case using strip_zeros_subset [of cs] by auto
qed

lemma pos_toString_no_E: "CHR ''E'' \<notin> set (pos_toString x)"
proof -
  obtain ds n where sd: "shortest_digits x = (ds, n)" by (cases "shortest_digits x")
  have ds: "CHR ''E'' \<notin> set ds"
    using sd strip_zeros_subset nat_digits_no_E
    by (auto simp: shortest_digits_def Let_def split: prod.splits)
  have tk: "\<And>m. CHR ''E'' \<notin> set (take m ds)" using ds by (auto dest: in_set_takeD)
  have dr: "\<And>m. CHR ''E'' \<notin> set (drop m ds)" using ds by (auto dest: in_set_dropD)
  show ?thesis
    unfolding pos_toString_def sd using ds tk dr nat_digits_no_E
    by (simp add: Let_def)
qed

lemma toString_no_E: "CHR ''E'' \<notin> set (toString x)"
  by (cases x) (simp_all add: pos_toString_no_E)

lemma pos_toLocaleString_no_E: "CHR ''E'' \<notin> set (pos_toLocaleString x)"
proof -
  have a: "\<And>n. CHR ''E'' \<notin> set (group3 (nat_digits n))"
    by (rule group3_no_E) (rule nat_digits_no_E)
  have b: "\<And>k n. CHR ''E'' \<notin> set (strip_zeros (replicate k (CHR ''0'') @ nat_digits n))"
    using strip_zeros_subset nat_digits_no_E by fastforce
  show ?thesis
    unfolding pos_toLocaleString_def using a b by (simp add: Let_def)
qed

lemma toLocaleString_no_E: "CHR ''E'' \<notin> set (toLocaleString x)"
  by (cases x) (simp_all add: pos_toLocaleString_no_E infinity_sign_def)

lemma formatNumber_Error_iff: "formatNumber n = ''Error'' \<longleftrightarrow> \<not> isFinite n"
proof (cases "isFinite n")
  case False
  then show ?thesis by (simp add: formatNumber_def)
next
  case True
  define s where "s = js_div (js_round (js_mul n (Fin 1000000000000))) (Fin 1000000000000)"
  have r: "CHR ''E'' \<notin> set (replace_trailing_zeros (replace_point_zeros (toString s)))"
    using replace_trailing_zeros_subset [of "replace_point_zeros (toString s)"]
      replace_point_zeros_subset [of "toString s"] toString_no_E [of s] by blast
  have "CHR ''E'' \<notin> set (formatNumber n)"
    using True r toString_no_E [of s] toLocaleString_no_E [of s]
    unfolding formatNumber_def Let_def s_def by simp
  then have "formatNumber n \<noteq> ''Error''" by auto
  with True show ?thesis by simp
qed


section \<open>Evaluation\<close>

text \<open>The equations that evaluate the model on concrete inputs.\<close>

lemma floor_rat_numeral: "\<lfloor>(numeral a / numeral b :: rat)\<rfloor> = numeral a div numeral b"
  by (metis floor_divide_of_int_eq of_int_numeral)

lemma floor_rat_neg_numeral: "\<lfloor>- (numeral a / numeral b :: rat)\<rfloor> = - numeral a div numeral b"
  by (metis divide_minus_left floor_divide_of_int_eq of_int_neg_numeral of_int_numeral)

lemmas num_ev = floor_rat_numeral floor_rat_neg_numeral fl_def fl_pos_def ilog_def bpow_def
  round_half_even_def round_half_up_def nlog.simps Let_def js_mul_def js_div_def js_sub_def with_sign_def

lemmas str_ev = digit_val_def digit_char_def is_digit_def nat_digits.simps trim_def is_ws_def
  radix_val_def dec_val_def is_exp_mark_def parse_exponent_def parse_decimal_def
  parse_non_decimal_def Number_def is_hex_digit_def hex_val_def is_oct_digit_def is_bin_digit_def
  shortest.simps strip_zeros_def shortest_digits_def pos_toString_def group3.simps
  pos_toLocaleString_def infinity_sign_def

lemmas eng_ev = createInitialState_def toNumber_def formatNumber_def compute_def inputDigit_def
  inputDot_def setOperator_def toggle_text_def toggleSign_def backspace_def clearAll_def
  evaluate_def percent_def preview_def run_def left_operand_def right_operand_def result_filed_def


section \<open>Arithmetic on finite Numbers\<close>

text \<open>On finite operands the four operators return the exact result rounded to binary64,
  up to the sign of a zero.\<close>

lemma fl_not_NaN: "fl q \<noteq> NaN"
  by (simp add: fl_def split: option.splits)

lemma fl_zero: "fl 0 = Fin 0"
  by (simp add: fl_def)

lemma signed_fl: "q \<noteq> 0 \<Longrightarrow> with_sign (q < 0) (fl \<bar>q\<bar>) = fl q"
  by (auto simp: with_sign_def fl_def split: option.splits)

lemma signed_zero: "is_zero (with_sign sg (Fin 0))"
  by (simp add: with_sign_def)

lemma strict_eq_refl: "x \<noteq> NaN \<Longrightarrow> strict_eq x x"
  by (simp add: strict_eq_def)

lemma strict_eq_zeros: "is_zero x \<Longrightarrow> is_zero y \<Longrightarrow> strict_eq x y"
  by (cases x; cases y) (simp_all add: strict_eq_def)

lemma js_add_finite: "isFinite a \<Longrightarrow> isFinite b \<Longrightarrow> strict_eq (js_add a b) (fl (num_val a + num_val b))"
  by (cases a; cases b) (simp_all add: strict_eq_refl fl_not_NaN strict_eq_zeros fl_zero)

lemma js_sub_finite: "isFinite a \<Longrightarrow> isFinite b \<Longrightarrow> strict_eq (js_sub a b) (fl (num_val a - num_val b))"
  by (cases a; cases b) (simp_all add: js_sub_def strict_eq_refl fl_not_NaN strict_eq_zeros fl_zero)

lemma js_mul_finite:
  assumes "isFinite a" "isFinite b"
  shows "strict_eq (js_mul a b) (fl (num_val a * num_val b))"
proof (cases "num_val a * num_val b = 0")
  case True
  then have m: "mag a * mag b = 0" using assms by (cases a; cases b) auto
  have "js_mul a b = with_sign (is_neg a \<noteq> is_neg b) (fl (mag a * mag b))"
    using assms by (cases a; cases b) (simp_all add: js_mul_def)
  then have "js_mul a b = with_sign (is_neg a \<noteq> is_neg b) (Fin 0)"
    unfolding m by (simp add: fl_zero)
  then show ?thesis unfolding True by (simp add: strict_eq_zeros signed_zero fl_zero)
next
  case False
  then obtain x y where ab: "a = Fin x" "b = Fin y" and xy: "x \<noteq> 0" "y \<noteq> 0"
    using assms by (cases a; cases b) auto
  have sg: "(is_neg a \<noteq> is_neg b) = (x * y < 0)"
    using xy by (auto simp: ab mult_less_0_iff)
  have "js_mul a b = with_sign (x * y < 0) (fl \<bar>x * y\<bar>)"
    unfolding js_mul_def sg by (simp add: ab abs_mult)
  also have "\<dots> = fl (x * y)" using xy by (intro signed_fl) simp
  finally show ?thesis by (simp add: ab strict_eq_refl fl_not_NaN)
qed

lemma js_div_finite:
  assumes "isFinite a" "isFinite b" "\<not> is_zero b"
  shows "strict_eq (js_div a b) (fl (num_val a / num_val b))"
proof -
  obtain y where b: "b = Fin y" and y: "y \<noteq> 0" using assms by (cases b) auto
  show ?thesis
  proof (cases "num_val a = 0")
    case True
    then have m: "mag a / mag b = 0" using assms by (cases a) auto
    have "js_div a b = with_sign (is_neg a \<noteq> is_neg b) (fl (mag a / mag b))"
      using assms y by (cases a) (simp_all add: js_div_def b)
    then have "js_div a b = with_sign (is_neg a \<noteq> is_neg b) (Fin 0)"
      unfolding m by (simp add: fl_zero)
    then show ?thesis using True by (simp add: strict_eq_zeros signed_zero fl_zero)
  next
    case False
    then obtain x where a: "a = Fin x" and x: "x \<noteq> 0" using assms by (cases a) auto
    have sg: "(is_neg a \<noteq> is_neg b) = (x / y < 0)"
      using x y by (auto simp: a b divide_less_0_iff)
    have "js_div a b = with_sign (x / y < 0) (fl \<bar>x / y\<bar>)"
      unfolding js_div_def sg using y by (simp add: a b)
    also have "\<dots> = fl (x / y)" using x y by (intro signed_fl) simp
    finally show ?thesis by (simp add: a b strict_eq_refl fl_not_NaN)
  qed
qed


section \<open>The claims\<close>

subsection \<open>C1: the display as a number\<close>

text \<open>The keys \<open>100000000000 * 100000000000 =\<close> compute \<open>10\<^sup>2\<^sup>2\<close>.  Its text has an exponent, so
  \<open>formatNumber\<close> takes the \<open>toLocaleString\<close> branch, which groups the digits with commas.\<close>

lemma large_result_trace:
  "run pw [Digit 1, Digit 0, Digit 0, Digit 0, Digit 0, Digit 0, Digit 0, Digit 0, Digit 0,
        Digit 0, Digit 0, Digit 0, Operator ''*'', Digit 1, Digit 0, Digit 0, Digit 0, Digit 0,
        Digit 0, Digit 0, Digit 0, Digit 0, Digit 0, Digit 0, Digit 0, Equals] =
     \<lparr> display = ''10,000,000,000,000,000,000,000'',
        prev = Some (Fin 10000000000000000000000), op = None, overwrite = True,
        lastOp = Some ''*'', lastOperand = Some (Fin 100000000000), error = False,
        rightLabel = None, rightValue = None \<rparr>"
  by (simp add: num_ev str_ev eng_ev cong: let_weak_cong)

lemma grouped_text_not_numeric: "Number ''10,000,000,000,000,000,000,000'' = NaN"
  by (simp add: num_ev str_ev cong: let_weak_cong)

lemma large_result_plus_one:
  "display (foldl (press pw)
     \<lparr> display = ''10,000,000,000,000,000,000,000'',
        prev = Some (Fin 10000000000000000000000), op = None, overwrite = True,
        lastOp = Some ''*'', lastOperand = Some (Fin 100000000000), error = False,
        rightLabel = None, rightValue = None \<rparr> [Operator ''+'', Digit 1, Equals]) = ''1''"
  by (simp add: grouped_text_not_numeric num_ev str_ev eng_ev cong: let_weak_cong)

text \<open>A finite value from about \<open>1.8e296\<close> on overflows in \<open>n * 1e12\<close>: its text is \<open>Infinity\<close>,
  not \<open>Error\<close>, and does not denote a finite number either.\<close>

lemma overflowing_result_text:
  "isFinite (Fin (2 ^ 1000)) \<and> formatNumber (Fin (2 ^ 1000)) = ''Infinity''
   \<and> Number ''Infinity'' = PosInf"
  by (simp add: num_ev str_ev eng_ev cong: let_weak_cong)

text \<open>
  Claim C1 (state invariant).  The claim is that in every state reachable from the initial
  state by the transition functions, \<open>error = false\<close> implies that the display parses to a
  finite number.  The engine breaks it: after \<open>100000000000 * 100000000000 =\<close> the
  \<open>error\<close> flag is clear, the display is \<open>10,000,000,000,000,000,000,000\<close>, and \<open>Number\<close> of
  that text is \<open>NaN\<close>.  The next operation reads the display as \<open>0\<close>: continuing with
  \<open>+ 1 =\<close> shows \<open>1\<close>.
\<close>

theorem large_result_not_numeric:
  "\<not> error (run pw [Digit 1, Digit 0, Digit 0, Digit 0, Digit 0, Digit 0, Digit 0, Digit 0, Digit 0,
        Digit 0, Digit 0, Digit 0, Operator ''*'', Digit 1, Digit 0, Digit 0, Digit 0, Digit 0,
        Digit 0, Digit 0, Digit 0, Digit 0, Digit 0, Digit 0, Digit 0, Equals])
   \<and> display (run pw [Digit 1, Digit 0, Digit 0, Digit 0, Digit 0, Digit 0, Digit 0, Digit 0, Digit 0,
        Digit 0, Digit 0, Digit 0, Operator ''*'', Digit 1, Digit 0, Digit 0, Digit 0, Digit 0,
        Digit 0, Digit 0, Digit 0, Digit 0, Digit 0, Digit 0, Digit 0, Equals])
       = ''10,000,000,000,000,000,000,000''
   \<and> Number (display (run pw [Digit 1, Digit 0, Digit 0, Digit 0, Digit 0, Digit 0, Digit 0, Digit 0,
        Digit 0, Digit 0, Digit 0, Digit 0, Operator ''*'', Digit 1, Digit 0, Digit 0, Digit 0,
        Digit 0, Digit 0, Digit 0, Digit 0, Digit 0, Digit 0, Digit 0, Digit 0, Equals])) = NaN
   \<and> display (foldl (press pw) (run pw [Digit 1, Digit 0, Digit 0, Digit 0, Digit 0, Digit 0, Digit 0,
        Digit 0, Digit 0, Digit 0, Digit 0, Digit 0, Operator ''*'', Digit 1, Digit 0, Digit 0,
        Digit 0, Digit 0, Digit 0, Digit 0, Digit 0, Digit 0, Digit 0, Digit 0, Digit 0, Equals])
        [Operator ''+'', Digit 1, Equals]) = ''1''"
  unfolding large_result_trace large_result_plus_one
  by (simp add: grouped_text_not_numeric)


subsection \<open>C2: how a compute branch files its result\<close>

text \<open>
  Claim C2.  In a state without error, wherever \<open>evaluate\<close> or \<open>setOperator\<close> computes a
  binary result (\<open>evaluate\<close> with a pending operator, with or without a staged percent;
  \<open>setOperator\<close> chaining a pending operator whose second operand was entered; \<open>evaluate\<close>
  repeating the last operation), a result that is not finite sets \<open>error\<close> and clears
  \<open>prev\<close>, \<open>lastOp\<close> and \<open>lastOperand\<close>, and a finite result becomes \<open>prev\<close> with
  \<open>overwrite\<close> set.
\<close>

theorem compute_branches_file_result:
  assumes "\<not> error s"
  shows "(truthy (op s) \<longrightarrow>
            result_filed (compute pw (left_operand s) (right_operand s) (op s)) (evaluate pw s))
       \<and> (truthy (op s) \<and> \<not> overwrite s \<longrightarrow>
            result_filed (compute pw (left_operand s) (right_operand s) (op s)) (setOperator pw s c))
       \<and> (\<not> truthy (op s) \<and> \<not> truthy (rightLabel s) \<and> truthy (lastOp s) \<longrightarrow>
            (\<forall>b. lastOperand s = Some b \<longrightarrow>
               result_filed (compute pw (toNumber (display s)) b (lastOp s)) (evaluate pw s)))"
  using assms
  by (auto simp: evaluate_def setOperator_def result_filed_def left_operand_def right_operand_def
      formatNumber_Error_iff Let_def split: option.splits)

lemma run_snoc: "run pw (ks @ [k]) = press pw (run pw ks) k"
  by (simp add: run_def)

text \<open>The three branches at work: \<open>5 + 2\<close> evaluated and chained, \<open>1 / 0\<close>, and a repeated
  \<open>=\<close> after \<open>5 + 2 =\<close>.\<close>


theorem compute_branches_file_result_witness:
  "\<not> error (run (\<lambda>a b. NaN) [Digit 5, Operator ''+'', Digit 2])
   \<and> truthy (op (run (\<lambda>a b. NaN) [Digit 5, Operator ''+'', Digit 2]))
   \<and> \<not> overwrite (run (\<lambda>a b. NaN) [Digit 5, Operator ''+'', Digit 2])
   \<and> prev (evaluate (\<lambda>a b. NaN) (run (\<lambda>a b. NaN) [Digit 5, Operator ''+'', Digit 2])) = Some (Fin 7)
   \<and> overwrite (evaluate (\<lambda>a b. NaN) (run (\<lambda>a b. NaN) [Digit 5, Operator ''+'', Digit 2]))
   \<and> prev (setOperator (\<lambda>a b. NaN) (run (\<lambda>a b. NaN) [Digit 5, Operator ''+'', Digit 2]) ''*'') = Some (Fin 7)
   \<and> \<not> error (run (\<lambda>a b. NaN) [Digit 1, Operator ''/'', Digit 0])
   \<and> truthy (op (run (\<lambda>a b. NaN) [Digit 1, Operator ''/'', Digit 0]))
   \<and> error (evaluate (\<lambda>a b. NaN) (run (\<lambda>a b. NaN) [Digit 1, Operator ''/'', Digit 0]))
   \<and> prev (evaluate (\<lambda>a b. NaN) (run (\<lambda>a b. NaN) [Digit 1, Operator ''/'', Digit 0])) = None
   \<and> lastOp (evaluate (\<lambda>a b. NaN) (run (\<lambda>a b. NaN) [Digit 1, Operator ''/'', Digit 0])) = None
   \<and> lastOperand (evaluate (\<lambda>a b. NaN) (run (\<lambda>a b. NaN) [Digit 1, Operator ''/'', Digit 0])) = None
   \<and> \<not> error (run (\<lambda>a b. NaN) [Digit 5, Operator ''+'', Digit 2, Equals])
   \<and> \<not> truthy (op (run (\<lambda>a b. NaN) [Digit 5, Operator ''+'', Digit 2, Equals]))
   \<and> \<not> truthy (rightLabel (run (\<lambda>a b. NaN) [Digit 5, Operator ''+'', Digit 2, Equals]))
   \<and> truthy (lastOp (run (\<lambda>a b. NaN) [Digit 5, Operator ''+'', Digit 2, Equals]))
   \<and> lastOperand (run (\<lambda>a b. NaN) [Digit 5, Operator ''+'', Digit 2, Equals]) = Some (Fin 2)
   \<and> prev (evaluate (\<lambda>a b. NaN) (run (\<lambda>a b. NaN) [Digit 5, Operator ''+'', Digit 2, Equals])) = Some (Fin 9)"
proof -
  let ?A = "\<lparr> display = ''2'', prev = Some (Fin 5), op = Some ''+'', overwrite = False,
    lastOp = None, lastOperand = None, error = False, rightLabel = None, rightValue = None \<rparr>"
  let ?B = "\<lparr> display = ''0'', prev = Some (Fin 1), op = Some ''/'', overwrite = False,
    lastOp = None, lastOperand = None, error = False, rightLabel = None, rightValue = None \<rparr>"
  let ?C = "\<lparr> display = ''7'', prev = Some (Fin 7), op = None, overwrite = True,
    lastOp = Some ''+'', lastOperand = Some (Fin 2), error = False, rightLabel = None,
    rightValue = None \<rparr>"
  have a: "run (\<lambda>a b. NaN) [Digit 5, Operator ''+'', Digit 2] = ?A"
    by (simp add: num_ev str_ev eng_ev cong: let_weak_cong)
  have b: "run (\<lambda>a b. NaN) [Digit 1, Operator ''/'', Digit 0] = ?B"
    by (simp add: num_ev str_ev eng_ev cong: let_weak_cong)
  have c: "run (\<lambda>a b. NaN) [Digit 5, Operator ''+'', Digit 2, Equals] = ?C"
    using run_snoc [of "\<lambda>a b. NaN" "[Digit 5, Operator ''+'', Digit 2]" Equals] unfolding a
    by (simp add: num_ev str_ev eng_ev cong: let_weak_cong)
  have ra: "compute (\<lambda>a b. NaN) (left_operand ?A) (right_operand ?A) (op ?A) = Fin 7"
    by (simp add: num_ev str_ev eng_ev cong: let_weak_cong)
  have rb: "compute (\<lambda>a b. NaN) (left_operand ?B) (right_operand ?B) (op ?B) = PosInf"
    by (simp add: num_ev str_ev eng_ev cong: let_weak_cong)
  have rc: "compute (\<lambda>a b. NaN) (toNumber ''7'') (Fin 2) (Some ''+'') = Fin 9"
    by (simp add: num_ev str_ev eng_ev cong: let_weak_cong)
  show ?thesis
    using compute_branches_file_result [of ?A "\<lambda>a b. NaN" "''*''"]
      compute_branches_file_result [of ?B "\<lambda>a b. NaN" "''*''"]
      compute_branches_file_result [of ?C "\<lambda>a b. NaN" "''*''"]
    unfolding a b c ra rb
    by (simp add: result_filed_def rc)
qed


subsection \<open>C3: percent\<close>

text \<open>
  Claim C3.  In a state without error, \<open>percent\<close> leaves the display text unchanged and sets
  \<open>rightLabel\<close> to the formatted current value followed by \<open>%\<close>; \<open>rightValue\<close> becomes
  \<open>cur / 100\<close> when \<open>*\<close> or \<open>/\<close> is pending, \<open>prev * cur / 100\<close> when \<open>+\<close> or \<open>-\<close> is
  pending (with \<open>cur\<close> in the place of \<open>prev\<close> in a state that has none), and \<open>cur / 100\<close>
  when no operator is pending, \<open>cur\<close> being the numeric value of the display.
\<close>

theorem percent_stages_value:
  assumes "\<not> error s"
  shows "display (percent s) = display s
       \<and> rightLabel (percent s) = Some (formatNumber (toNumber (display s)) @ ''%'')
       \<and> (op s = Some ''*'' \<or> op s = Some ''/'' \<longrightarrow>
            rightValue (percent s) = Some (js_div (toNumber (display s)) (Fin 100)))
       \<and> (op s = Some ''+'' \<or> op s = Some ''-'' \<longrightarrow>
            rightValue (percent s) =
              Some (js_div (js_mul (case prev s of Some p \<Rightarrow> p | None \<Rightarrow> toNumber (display s))
                                   (toNumber (display s))) (Fin 100)))
       \<and> (\<not> truthy (op s) \<longrightarrow>
            rightValue (percent s) = Some (js_div (toNumber (display s)) (Fin 100)))"
  using assms by (auto simp: percent_def Let_def)

text \<open>\<open>200 + 10 %\<close> stages \<open>20\<close> under the label \<open>10%\<close>; \<open>200 * 10 %\<close> and a lone \<open>10 %\<close>
  stage the binary64 value of \<open>0.1\<close>.\<close>

theorem percent_stages_value_witness:
  "\<not> error (run (\<lambda>a b. NaN) [Digit 2, Digit 0, Digit 0, Operator ''+'', Digit 1, Digit 0])
   \<and> op (run (\<lambda>a b. NaN) [Digit 2, Digit 0, Digit 0, Operator ''+'', Digit 1, Digit 0]) = Some ''+''
   \<and> prev (run (\<lambda>a b. NaN) [Digit 2, Digit 0, Digit 0, Operator ''+'', Digit 1, Digit 0]) = Some (Fin 200)
   \<and> display (percent (run (\<lambda>a b. NaN) [Digit 2, Digit 0, Digit 0, Operator ''+'', Digit 1, Digit 0])) = ''10''
   \<and> rightLabel (percent (run (\<lambda>a b. NaN) [Digit 2, Digit 0, Digit 0, Operator ''+'', Digit 1, Digit 0])) = Some ''10%''
   \<and> rightValue (percent (run (\<lambda>a b. NaN) [Digit 2, Digit 0, Digit 0, Operator ''+'', Digit 1, Digit 0])) = Some (Fin 20)
   \<and> \<not> error (run (\<lambda>a b. NaN) [Digit 2, Digit 0, Digit 0, Operator ''*'', Digit 1, Digit 0])
   \<and> op (run (\<lambda>a b. NaN) [Digit 2, Digit 0, Digit 0, Operator ''*'', Digit 1, Digit 0]) = Some ''*''
   \<and> rightValue (percent (run (\<lambda>a b. NaN) [Digit 2, Digit 0, Digit 0, Operator ''*'', Digit 1, Digit 0])) =
       Some (Fin (3602879701896397 / 36028797018963968))
   \<and> \<not> error (run (\<lambda>a b. NaN) [Digit 1, Digit 0])
   \<and> \<not> truthy (op (run (\<lambda>a b. NaN) [Digit 1, Digit 0]))
   \<and> rightValue (percent (run (\<lambda>a b. NaN) [Digit 1, Digit 0])) =
       Some (Fin (3602879701896397 / 36028797018963968))"
proof -
  let ?A = "\<lparr> display = ''10'', prev = Some (Fin 200), op = Some ''+'', overwrite = False,
    lastOp = None, lastOperand = None, error = False, rightLabel = None, rightValue = None \<rparr>"
  let ?B = "\<lparr> display = ''10'', prev = Some (Fin 200), op = Some ''*'', overwrite = False,
    lastOp = None, lastOperand = None, error = False, rightLabel = None, rightValue = None \<rparr>"
  let ?C = "\<lparr> display = ''10'', prev = None, op = None, overwrite = False,
    lastOp = None, lastOperand = None, error = False, rightLabel = None, rightValue = None \<rparr>"
  have a: "run (\<lambda>a b. NaN) [Digit 2, Digit 0, Digit 0, Operator ''+'', Digit 1, Digit 0] = ?A"
    by (simp add: num_ev str_ev eng_ev cong: let_weak_cong)
  have b: "run (\<lambda>a b. NaN) [Digit 2, Digit 0, Digit 0, Operator ''*'', Digit 1, Digit 0] = ?B"
    by (simp add: num_ev str_ev eng_ev cong: let_weak_cong)
  have c: "run (\<lambda>a b. NaN) [Digit 1, Digit 0] = ?C"
    by (simp add: num_ev str_ev eng_ev cong: let_weak_cong)
  have n: "toNumber ''10'' = Fin 10"
    by (simp add: num_ev str_ev eng_ev cong: let_weak_cong)
  have f: "formatNumber (Fin 10) = ''10''"
    by (simp add: num_ev str_ev eng_ev cong: let_weak_cong)
  have v: "js_div (js_mul (Fin 200) (Fin 10)) (Fin 100) = Fin 20"
    by (simp add: num_ev cong: let_weak_cong)
  have w: "js_div (Fin 10) (Fin 100) = Fin (3602879701896397 / 36028797018963968)"
    by (simp add: num_ev cong: let_weak_cong)
  show ?thesis
    using percent_stages_value [of ?A] percent_stages_value [of ?B] percent_stages_value [of ?C]
    unfolding a b c
    by (simp add: n f v w)
qed


subsection \<open>C4: operator chaining\<close>

text \<open>
  Claim C4 (operator chaining).  From the initial state, \<open>inputDigit 7\<close>, \<open>setOperator '+'\<close>,
  \<open>inputDigit 3\<close>, \<open>setOperator '*'\<close> evaluates the pending \<open>7 + 3\<close> first: the display is
  \<open>10\<close>, \<open>prev\<close> is \<open>10\<close>, the staged operator is \<open>*\<close>, \<open>overwrite\<close> is set and the
  remembered pair is \<open>('+', 3)\<close>.
\<close>

theorem operator_chaining:
  "setOperator pw (inputDigit (setOperator pw (inputDigit createInitialState 7) ''+'') 3) ''*'' =
     \<lparr> display = ''10'', prev = Some (Fin 10), op = Some ''*'', overwrite = True,
       lastOp = Some ''+'', lastOperand = Some (Fin 3), error = False,
       rightLabel = None, rightValue = None \<rparr>"
  by (simp add: num_ev str_ev eng_ev cong: let_weak_cong)


subsection \<open>C5: repeated equals\<close>

text \<open>
  Claim C5 (repeat-equals).  From the initial state, \<open>inputDigit 5\<close>, \<open>setOperator '+'\<close>,
  \<open>inputDigit 2\<close>, \<open>evaluate\<close> shows \<open>7\<close> and remembers the pair \<open>('+', 2)\<close>; \<open>evaluate\<close> once
  more applies that pair to the display and shows \<open>9\<close>.
\<close>

theorem repeat_equals:
  "display (evaluate pw (inputDigit (setOperator pw (inputDigit createInitialState 5) ''+'') 2)) = ''7''
   \<and> lastOp (evaluate pw (inputDigit (setOperator pw (inputDigit createInitialState 5) ''+'') 2)) = Some ''+''
   \<and> lastOperand (evaluate pw (inputDigit (setOperator pw (inputDigit createInitialState 5) ''+'') 2)) = Some (Fin 2)
   \<and> display (evaluate pw (evaluate pw (inputDigit (setOperator pw (inputDigit createInitialState 5) ''+'') 2))) = ''9''"
proof -
  have first: "evaluate pw (inputDigit (setOperator pw (inputDigit createInitialState 5) ''+'') 2) =
      \<lparr> display = ''7'', prev = Some (Fin 7), op = None, overwrite = True, lastOp = Some ''+'',
        lastOperand = Some (Fin 2), error = False, rightLabel = None, rightValue = None \<rparr>"
    by (simp add: num_ev str_ev eng_ev cong: let_weak_cong)
  have again: "evaluate pw \<lparr> display = ''7'', prev = Some (Fin 7), op = None, overwrite = True,
        lastOp = Some ''+'', lastOperand = Some (Fin 2), error = False, rightLabel = None,
        rightValue = None \<rparr> =
      \<lparr> display = ''9'', prev = Some (Fin 9), op = None, overwrite = True, lastOp = Some ''+'',
        lastOperand = Some (Fin 2), error = False, rightLabel = None, rightValue = None \<rparr>"
    by (simp add: num_ev str_ev eng_ev cong: let_weak_cong)
  show ?thesis unfolding first again by simp
qed


subsection \<open>C6: error reset\<close>

text \<open>
  Claim C6 (error reset).  In a state whose \<open>error\<close> flag is set, every one of \<open>inputDigit\<close>
  (with any digit), \<open>inputDot\<close>, \<open>setOperator\<close> (with any operator), \<open>percent\<close>,
  \<open>toggleSign\<close>, \<open>backspace\<close> and \<open>evaluate\<close> returns exactly the initial state.
\<close>

theorem error_reset:
  assumes "error s"
  shows "inputDigit s d = createInitialState \<and> inputDot s = createInitialState
    \<and> setOperator pw s c = createInitialState \<and> percent s = createInitialState
    \<and> toggleSign s = createInitialState \<and> backspace s = createInitialState
    \<and> evaluate pw s = createInitialState"
  using assms
  by (simp add: inputDigit_def inputDot_def setOperator_def percent_def toggleSign_def
      backspace_def evaluate_def)

text \<open>The state after \<open>1 / 0 =\<close> is such an error state.\<close>

theorem error_reset_witness:
  "error \<lparr> display = ''Error'', prev = None, op = None, overwrite = True, lastOp = None,
       lastOperand = None, error = True, rightLabel = None, rightValue = None \<rparr>
   \<and> inputDigit \<lparr> display = ''Error'', prev = None, op = None, overwrite = True, lastOp = None,
       lastOperand = None, error = True, rightLabel = None, rightValue = None \<rparr> 7 = createInitialState
   \<and> evaluate (\<lambda>a b. NaN) \<lparr> display = ''Error'', prev = None, op = None, overwrite = True, lastOp = None,
       lastOperand = None, error = True, rightLabel = None, rightValue = None \<rparr> = createInitialState"
  using error_reset [of "\<lparr> display = ''Error'', prev = None, op = None, overwrite = True, lastOp = None,
       lastOperand = None, error = True, rightLabel = None, rightValue = None \<rparr>" 7 "\<lambda>a b. NaN"]
  by simp


subsection \<open>C7: compute and the text of a value that is not finite\<close>

text \<open>
  Claim C7.  For finite \<open>a\<close> and \<open>b\<close>, \<open>compute\<close> returns the standard arithmetic result:
  for \<open>+\<close>, \<open>-\<close>, \<open>*\<close> and for \<open>/\<close> with a divisor other than zero, the exact sum,
  difference, product or quotient rounded to binary64 (equal in the sense of \<open>===\<close>); for
  \<open>^\<close>, what \<open>Math.pow\<close> returns.  A division by zero yields positive infinity, and
  \<open>formatNumber\<close> of a Number that is not finite is the text \<open>Error\<close>.
\<close>

theorem compute_standard_arithmetic:
  assumes "isFinite a" "isFinite b"
  shows "strict_eq (compute pw a b (Some ''+'')) (fl (num_val a + num_val b))
       \<and> strict_eq (compute pw a b (Some ''-'')) (fl (num_val a - num_val b))
       \<and> strict_eq (compute pw a b (Some ''*'')) (fl (num_val a * num_val b))
       \<and> (\<not> is_zero b \<longrightarrow> strict_eq (compute pw a b (Some ''/'')) (fl (num_val a / num_val b)))
       \<and> compute pw a b (Some ''^'') = pw a b
       \<and> (is_zero b \<longrightarrow> compute pw a b (Some ''/'') = PosInf)
       \<and> (\<not> isFinite n \<longrightarrow> formatNumber n = ''Error'')"
  using assms js_add_finite [of a b] js_sub_finite [of a b] js_mul_finite [of a b] js_div_finite [of a b]
  by (simp add: compute_def formatNumber_def)

theorem compute_standard_arithmetic_witness:
  "isFinite (Fin 7) \<and> isFinite (Fin 3) \<and> \<not> is_zero (Fin 3)
   \<and> strict_eq (compute (\<lambda>a b. NaN) (Fin 7) (Fin 3) (Some ''+'')) (fl (7 + 3))
   \<and> strict_eq (compute (\<lambda>a b. NaN) (Fin 7) (Fin 3) (Some ''/'')) (fl (7 / 3))
   \<and> isFinite (Fin 1) \<and> is_zero (Fin 0)
   \<and> compute (\<lambda>a b. NaN) (Fin 1) (Fin 0) (Some ''/'') = PosInf
   \<and> \<not> isFinite PosInf \<and> formatNumber PosInf = ''Error''"
  using compute_standard_arithmetic [of "Fin 7" "Fin 3" "\<lambda>a b. NaN" PosInf]
    compute_standard_arithmetic [of "Fin 1" "Fin 0" "\<lambda>a b. NaN" PosInf]
  by simp


subsection \<open>C8: the length of the display\<close>

lemma nat_digits_single: "d < 10 \<Longrightarrow> length (nat_digits d) = 1"
  by (subst nat_digits.simps) simp

lemma inputDigit_keeps_limit:
  assumes "d < 10" "\<not> error s" "length (display s) \<le> 16"
  shows "\<not> error (inputDigit s d) \<and> length (display (inputDigit s d)) \<le> 16"
  using assms by (auto simp: inputDigit_def nat_digits_single)

lemma digits_keep_limit:
  "\<forall>d\<in>set ds. d < 10 \<Longrightarrow> \<not> error s \<Longrightarrow> length (display s) \<le> 16 \<Longrightarrow>
     \<not> error (foldl inputDigit s ds) \<and> length (display (foldl inputDigit s ds)) \<le> 16"
proof (induction ds arbitrary: s)
  case Nil
  then show ?case by simp
next
  case (Cons d ds)
  have "\<not> error (inputDigit s d) \<and> length (display (inputDigit s d)) \<le> 16"
    using Cons.prems by (intro inputDigit_keeps_limit) auto
  then show ?case using Cons.IH [of "inputDigit s d"] Cons.prems(1) by simp
qed

text \<open>
  Claim C8, as the engine has it.  The limit of 16 characters is a guard of \<open>inputDigit\<close>
  alone: a display entered with digit keys from the initial state never exceeds 16
  characters, and in a state without error and not in overwrite mode whose display has 16
  characters or more (and is not \<open>0\<close>), \<open>inputDigit\<close> returns the state unchanged.
\<close>

theorem digit_entry_limit:
  "((\<forall>d\<in>set ds. d < 10) \<longrightarrow> length (display (foldl inputDigit createInitialState ds)) \<le> 16)
   \<and> (\<not> error s \<and> \<not> overwrite s \<and> display s \<noteq> ''0'' \<and> 16 \<le> length (display s)
        \<longrightarrow> inputDigit s d = s)"
proof -
  have "\<not> error createInitialState \<and> length (display createInitialState) \<le> 16"
    by (simp add: createInitialState_def)
  then show ?thesis using digits_keep_limit [of ds createInitialState]
    by (auto simp: inputDigit_def)
qed

theorem digit_entry_limit_witness:
  "length (display (foldl inputDigit createInitialState
        [9, 9, 9, 9, 9, 9, 9, 9, 9, 9, 9, 9, 9, 9, 9, 9, 9, 9])) \<le> 16
   \<and> \<not> error (foldl inputDigit createInitialState [9, 9, 9, 9, 9, 9, 9, 9, 9, 9, 9, 9, 9, 9, 9, 9])
   \<and> \<not> overwrite (foldl inputDigit createInitialState [9, 9, 9, 9, 9, 9, 9, 9, 9, 9, 9, 9, 9, 9, 9, 9])
   \<and> display (foldl inputDigit createInitialState [9, 9, 9, 9, 9, 9, 9, 9, 9, 9, 9, 9, 9, 9, 9, 9]) \<noteq> ''0''
   \<and> 16 \<le> length (display (foldl inputDigit createInitialState [9, 9, 9, 9, 9, 9, 9, 9, 9, 9, 9, 9, 9, 9, 9, 9]))
   \<and> inputDigit (foldl inputDigit createInitialState [9, 9, 9, 9, 9, 9, 9, 9, 9, 9, 9, 9, 9, 9, 9, 9]) 7
       = foldl inputDigit createInitialState [9, 9, 9, 9, 9, 9, 9, 9, 9, 9, 9, 9, 9, 9, 9, 9]"
proof -
  have s: "foldl inputDigit createInitialState [9, 9, 9, 9, 9, 9, 9, 9, 9, 9, 9, 9, 9, 9, 9, 9] =
      \<lparr> display = ''9999999999999999'', prev = None, op = None, overwrite = False, lastOp = None,
        lastOperand = None, error = False, rightLabel = None, rightValue = None \<rparr>"
    by (simp add: str_ev eng_ev cong: let_weak_cong)
  show ?thesis
    using digit_entry_limit [of "[9, 9, 9, 9, 9, 9, 9, 9, 9, 9, 9, 9, 9, 9, 9, 9, 9, 9]"
        "foldl inputDigit createInitialState [9, 9, 9, 9, 9, 9, 9, 9, 9, 9, 9, 9, 9, 9, 9, 9]" 7]
    unfolding s by simp
qed

text \<open>The claim as stated, that no reachable state has a display of more than 16
  characters, fails: sixteen digits and \<open>toggleSign\<close> give 17 characters.\<close>

theorem display_limit_counterexample:
  "\<not> error (toggleSign (foldl inputDigit createInitialState [1, 1, 1, 1, 1, 1, 1, 1, 1, 1, 1, 1, 1, 1, 1, 1]))
   \<and> \<not> length (display (toggleSign (foldl inputDigit createInitialState
        [1, 1, 1, 1, 1, 1, 1, 1, 1, 1, 1, 1, 1, 1, 1, 1]))) \<le> 16"
  by (simp add: str_ev eng_ev cong: let_weak_cong)


subsection \<open>C9: preview and evaluate\<close>

text \<open>The kind tag of \<open>preview\<close> names the case \<open>evaluate\<close> takes, in the order \<open>evaluate\<close>
  tests them, and for the kinds \<open>binary\<close>, \<open>percentUnary\<close> and \<open>repeat\<close> the result of
  \<open>preview\<close> formats to the display that \<open>evaluate\<close> returns.\<close>

lemma preview_kind_follows_evaluate:
  "map_option p_kind (preview pw s) =
     (if truthy (op s) \<and> truthy (rightLabel s) then Some ''percent''
      else if \<not> truthy (op s) \<and> truthy (rightLabel s) then Some ''percentUnary''
      else if truthy (op s) then Some ''binary''
      else if truthy (lastOp s) \<and> lastOperand s \<noteq> None then Some ''repeat''
      else None)"
  by (auto simp: preview_def Let_def)

lemma preview_agrees_outside_percent:
  assumes "\<not> error s" "preview pw s = Some p" "p_kind p \<noteq> ''percent''"
  shows "formatNumber (p_result p) = display (evaluate pw s)"
  using assms
  by (auto simp: preview_def evaluate_def Let_def split: if_splits option.splits)

text \<open>
  Claim C9.  The claim is that \<open>preview\<close> reports the computed result of the pending
  evaluation, so that \<open>formatNumber\<close> of it is the display \<open>evaluate\<close> returns.  For the kind
  \<open>percent\<close> the engine reports the right operand instead: after \<open>200 + 10 %\<close> the
  result field of \<open>preview\<close> is \<open>20\<close>, whose text is \<open>20\<close>, while \<open>evaluate\<close> shows \<open>220\<close>.
\<close>

theorem preview_percent_result_is_operand:
  "\<not> error (run pw [Digit 2, Digit 0, Digit 0, Operator ''+'', Digit 1, Digit 0, Percent])
   \<and> preview pw (run pw [Digit 2, Digit 0, Digit 0, Operator ''+'', Digit 1, Digit 0, Percent]) =
       Some \<lparr> p_a = Some (Fin 200), p_b = Fin 20, p_bLabel = Some ''10%'', p_op = Some ''+'',
              p_result = Fin 20, p_resultStr = ''20'', p_error = False, p_kind = ''percent'' \<rparr>
   \<and> formatNumber (Fin 20) = ''20''
   \<and> display (evaluate pw (run pw [Digit 2, Digit 0, Digit 0, Operator ''+'', Digit 1, Digit 0, Percent])) = ''220''"
proof -
  let ?S = "\<lparr> display = ''10'', prev = Some (Fin 200), op = Some ''+'', overwrite = True,
    lastOp = None, lastOperand = None, error = False, rightLabel = Some ''10%'',
    rightValue = Some (Fin 20) \<rparr>"
  have s: "run pw [Digit 2, Digit 0, Digit 0, Operator ''+'', Digit 1, Digit 0, Percent] = ?S"
    by (simp add: num_ev str_ev eng_ev cong: let_weak_cong)
  have f: "formatNumber (Fin 20) = ''20''"
    by (simp add: num_ev str_ev eng_ev cong: let_weak_cong)
  have p: "preview pw ?S =
       Some \<lparr> p_a = Some (Fin 200), p_b = Fin 20, p_bLabel = Some ''10%'', p_op = Some ''+'',
              p_result = Fin 20, p_resultStr = ''20'', p_error = False, p_kind = ''percent'' \<rparr>"
    by (simp add: preview_def Let_def f)
  have e: "display (evaluate pw ?S) = ''220''"
    by (simp add: num_ev str_ev eng_ev cong: let_weak_cong)
  show ?thesis unfolding s using p e f by simp
qed


subsection \<open>C10: toggling the sign twice\<close>

text \<open>
  Claim C10, as the engine has it.  In a state without error whose display is not \<open>-0\<close> and
  does not begin with two minus signs, \<open>toggleSign\<close> applied twice returns the state it
  started from.
\<close>

theorem toggleSign_involution:
  assumes "\<not> error s" "display s \<noteq> ''-0''" "take 2 (display s) \<noteq> ''--''"
  shows "toggleSign (toggleSign s) = s"
proof (cases "display s = ''0''")
  case True
  then show ?thesis using assms by (simp add: toggleSign_def)
next
  case False
  show ?thesis
  proof (cases "display s \<noteq> [] \<and> hd (display s) = CHR ''-''")
    case True
    then obtain r where r: "display s = CHR ''-'' # r" by (cases "display s") auto
    have "r \<noteq> ''0''" using assms(2) r by simp
    moreover have "\<not> (r \<noteq> [] \<and> hd r = CHR ''-'')" using assms(3) r by (cases r) auto
    ultimately show ?thesis using assms(1) False r
      by (auto simp: toggleSign_def toggle_text_def)
  next
    case False
    then show ?thesis using assms(1) \<open>display s \<noteq> ''0''\<close>
      by (auto simp: toggleSign_def toggle_text_def)
  qed
qed

theorem toggleSign_involution_witness:
  "\<not> error (inputDigit createInitialState 5) \<and> display (inputDigit createInitialState 5) \<noteq> ''-0''
   \<and> take 2 (display (inputDigit createInitialState 5)) \<noteq> ''--''
   \<and> toggleSign (toggleSign (inputDigit createInitialState 5)) = inputDigit createInitialState 5"
proof -
  have s: "inputDigit createInitialState 5 =
      \<lparr> display = ''5'', prev = None, op = None, overwrite = False, lastOp = None,
        lastOperand = None, error = False, rightLabel = None, rightValue = None \<rparr>"
    by (simp add: str_ev eng_ev cong: let_weak_cong)
  show ?thesis using toggleSign_involution [of "inputDigit createInitialState 5"]
    unfolding s by simp
qed

text \<open>The display \<open>-0\<close> is reached by \<open>inputDot\<close>, \<open>toggleSign\<close>, \<open>backspace\<close>; there the first
  \<open>toggleSign\<close> gives \<open>0\<close>, which the second leaves alone.\<close>

theorem toggleSign_involution_counterexample:
  "\<not> error (backspace (toggleSign (inputDot createInitialState)))
   \<and> toggleSign (toggleSign (backspace (toggleSign (inputDot createInitialState))))
       \<noteq> backspace (toggleSign (inputDot createInitialState))"
  by (simp add: eng_ev cong: let_weak_cong)


end
